theory Spec2Isabelle
  imports Complex_Main "HOL-Library.Sublist"
begin

section \<open>JavaScript values as the contact route sees them\<close>

text \<open>
  The route handler receives whatever \<^verbatim>\<open>req.json()\<close> resolves to, so the model starts
  from parsed values. A number keeps its value; the special doubles are separate
  constructors because truthiness treats them separately. An object is the list of its
  own properties, read with \<^const>\<open>map_of\<close>.
\<close>

datatype jsnum = Finite rat | Neg_zero | Pos_infinity | Neg_infinity | NaN

datatype jsval =
    Undefined
  | Null
  | Bool bool
  | Num jsnum
  | Str string
  | Arr "jsval list"
  | Obj "(string \<times> jsval) list"

datatype exn = SyntaxError | TypeError | Error string

text \<open>JavaScript \<^verbatim>\<open>ToBoolean\<close>: what \<^verbatim>\<open>!x\<close> negates.\<close>

fun num_truthy :: "jsnum \<Rightarrow> bool" where
  "num_truthy (Finite q) = (q \<noteq> 0)"
| "num_truthy Neg_zero = False"
| "num_truthy Pos_infinity = True"
| "num_truthy Neg_infinity = True"
| "num_truthy NaN = False"

fun truthy :: "jsval \<Rightarrow> bool" where
  "truthy Undefined = False"
| "truthy Null = False"
| "truthy (Bool b) = b"
| "truthy (Num n) = num_truthy n"
| "truthy (Str s) = (s \<noteq> [])"
| "truthy (Arr xs) = True"
| "truthy (Obj kvs) = True"

text \<open>Reading a property of an object: a missing property reads as \<^verbatim>\<open>undefined\<close>.\<close>

definition field :: "(string \<times> jsval) list \<Rightarrow> string \<Rightarrow> jsval" where
  "field kvs k = (case map_of kvs k of None \<Rightarrow> Undefined | Some v \<Rightarrow> v)"

text \<open>
  The destructuring \<^verbatim>\<open>const { name, email, message } = v\<close>. It throws a TypeError on
  \<^verbatim>\<open>null\<close> and \<^verbatim>\<open>undefined\<close>. On an object it reads the three properties. On a
  boolean, number, string or array it reads them from the wrapper or the array, none of
  which has a property of these names, so all three are \<^verbatim>\<open>undefined\<close>.
\<close>

fun destructure :: "jsval \<Rightarrow> exn + (jsval \<times> jsval \<times> jsval)" where
  "destructure Undefined = Inl TypeError"
| "destructure Null = Inl TypeError"
| "destructure (Obj kvs) = Inr (field kvs ''name'', field kvs ''email'', field kvs ''message'')"
| "destructure v = Inr (Undefined, Undefined, Undefined)"

section \<open>Requests and responses\<close>

text \<open>
  A request is modelled by what the handler can observe of it: its headers, which the
  handler never reads, and the outcome of \<^verbatim>\<open>req.json()\<close>, either a rejection or the
  parsed value.
\<close>

record request =
  headers :: "(string \<times> string) list"
  req_json :: "exn + jsval"

record response =
  status :: nat
  body :: jsval

text \<open>\<^verbatim>\<open>NextResponse.json(body, { status })\<close>; without the second argument the status is 200.\<close>

definition NextResponse_json :: "jsval \<Rightarrow> nat \<Rightarrow> response" where
  "NextResponse_json b st = \<lparr>status = st, body = b\<rparr>"

text \<open>\<^verbatim>\<open>res.ok\<close> of the Fetch API: the status is in the range 200 to 299.\<close>

definition res_ok :: "response \<Rightarrow> bool" where
  "res_ok res = (200 \<le> status res \<and> status res \<le> 299)"

section \<open>The route handlers\<close>

text \<open>The condition of the \<^verbatim>\<open>if\<close> in both handlers: \<^verbatim>\<open>!name || !email || !message\<close>.\<close>

definition missing_fields :: "jsval \<Rightarrow> jsval \<Rightarrow> jsval \<Rightarrow> bool" where
  "missing_fields name email message = (\<not> truthy name \<or> \<not> truthy email \<or> \<not> truthy message)"

definition missing_response :: response where
  "missing_response =
     NextResponse_json (Obj [(''ok'', Bool False), (''error'', Str ''Missing fields'')]) 400"

definition ok_response :: response where
  "ok_response = NextResponse_json (Obj [(''ok'', Bool True)]) 200"

text \<open>
  The typed handler:
  \<^verbatim>\<open>const { name, email, message } = await req.json().catch(() => ({} as any));\<close>
  The \<^verbatim>\<open>catch\<close> replaces a rejection of \<^verbatim>\<open>req.json()\<close> by the empty object; the value
  it resolves to otherwise is destructured as it is.
\<close>

definition json_or_empty :: "request \<Rightarrow> jsval" where
  "json_or_empty req = (case req_json req of Inl e \<Rightarrow> Obj [] | Inr v \<Rightarrow> v)"

definition POST :: "request \<Rightarrow> exn + response" where
  "POST req =
     (case destructure (json_or_empty req) of
        Inl e \<Rightarrow> Inl e
      | Inr (name, email, message) \<Rightarrow>
          if missing_fields name email message then Inr missing_response
          else Inr ok_response)"

text \<open>
  The untyped handler: \<^verbatim>\<open>const { name, email, message } = await req.json()\<close>.
  There is no \<^verbatim>\<open>catch\<close>, so a rejection of \<^verbatim>\<open>req.json()\<close> rejects the handler, and
  the failure body is \<^verbatim>\<open>{ ok: false }\<close>.
\<close>

definition missing_response_js :: response where
  "missing_response_js = NextResponse_json (Obj [(''ok'', Bool False)]) 400"

definition POST_js :: "request \<Rightarrow> exn + response" where
  "POST_js req =
     (case req_json req of
        Inl e \<Rightarrow> Inl e
      | Inr v \<Rightarrow>
          (case destructure v of
             Inl e \<Rightarrow> Inl e
           | Inr (name, email, message) \<Rightarrow>
               if missing_fields name email message then Inr missing_response_js
               else Inr ok_response))"

subsection \<open>The handler as a program with effects\<close>

text \<open>
  A route handler can do more than compute a response from the parsed body. It can read
  the headers of the request, the clock, and what the server has stored; and it can send
  mail and write to the database, the step that the comment in both handlers leaves to be
  written (\<^verbatim>\<open>// TODO: send email via Resend/SendGrid/SES, or log to DB\<close>). A program is
  a tree of such operations, each reading operation with the continuation that receives
  what was read, and each writing operation with the program that follows it.
\<close>

datatype 'a prog =
    Return 'a
  | Throw exn
  | Req_json "exn + jsval \<Rightarrow> 'a prog"
  | Req_headers "(string \<times> string) list \<Rightarrow> 'a prog"
  | Date_now "nat \<Rightarrow> 'a prog"
  | Read_db "jsval list \<Rightarrow> 'a prog"
  | Send_email jsval "'a prog"
  | Log_to_db jsval "'a prog"

text \<open>
  The world a handler runs in: the mail handed to the provider so far, the rows logged to
  the database so far, and the clock.
\<close>

record world =
  outbox :: "jsval list"
  database :: "jsval list"
  clock :: nat

text \<open>
  Running a program on a request in a world gives what the handler returns or throws,
  and the world it leaves. Sending appends to the outbox and logging appends to the
  database.
\<close>

primrec run :: "'a prog \<Rightarrow> request \<Rightarrow> world \<Rightarrow> (exn + 'a) \<times> world" where
  "run (Return x) req w = (Inr x, w)"
| "run (Throw e) req w = (Inl e, w)"
| "run (Req_json k) req w = run (k (req_json req)) req w"
| "run (Req_headers k) req w = run (k (headers req)) req w"
| "run (Date_now k) req w = run (k (clock w)) req w"
| "run (Read_db k) req w = run (k (database w)) req w"
| "run (Send_email m p) req w = run p req (w\<lparr>outbox := outbox w @ [m]\<rparr>)"
| "run (Log_to_db m p) req w = run p req (w\<lparr>database := database w @ [m]\<rparr>)"

text \<open>
  The typed handler, statement by statement: \<^verbatim>\<open>await req.json()\<close> with its \<^verbatim>\<open>catch\<close>,
  the destructuring, which may throw, the \<^verbatim>\<open>if\<close>, and the two \<^verbatim>\<open>return\<close>s. Between the
  \<^verbatim>\<open>if\<close> and the last \<^verbatim>\<open>return\<close> the source has the comment and no statement, so the
  program has no operation there.
\<close>

definition POST_prog :: "response prog" where
  "POST_prog =
     Req_json (\<lambda>r.
       case destructure (case r of Inl e \<Rightarrow> Obj [] | Inr v \<Rightarrow> v) of
         Inl e \<Rightarrow> Throw e
       | Inr (name, email, message) \<Rightarrow>
           if missing_fields name email message then Return missing_response
           else Return ok_response)"

section \<open>The project gallery\<close>

record project =
  title :: string
  cat :: string
  thumb :: string
  desc :: string
  stack :: "string list"
  github :: "string option"
  demo :: "string option"

text \<open>\<^verbatim>\<open>active === "All" ? all : all.filter((p) => p.cat === active)\<close>\<close>

definition filtered :: "string \<Rightarrow> project list \<Rightarrow> project list" where
  "filtered active all = (if active = ''All'' then all else filter (\<lambda>p. cat p = active) all)"

text \<open>
  \<^verbatim>\<open>useMemo(factory, [dep])\<close>: the hook keeps the dependency and the value of the last
  computation, and calls the factory again only when the dependency has changed.
\<close>

fun useMemo :: "(unit \<Rightarrow> 'a) \<Rightarrow> 'd \<Rightarrow> ('d \<times> 'a) option \<Rightarrow> 'd \<times> 'a" where
  "useMemo factory dep None = (dep, factory ())"
| "useMemo factory dep (Some (dep', v)) = (if dep = dep' then (dep', v) else (dep, factory ()))"

text \<open>
  The state of a mounted \<^verbatim>\<open>Projects\<close> component: the \<^verbatim>\<open>active\<close> category and the
  cell of the memo hook. A render runs the hook; a click on a category button calls
  \<^verbatim>\<open>setActive\<close>, after which the component renders again. The list \<^verbatim>\<open>all\<close> is a
  constant of the component and is the same in every render.
\<close>

record projects_state =
  active :: string
  memo :: "(string \<times> project list) option"

definition render :: "project list \<Rightarrow> projects_state \<Rightarrow> projects_state" where
  "render all st =
     st\<lparr>memo := Some (useMemo (\<lambda>_. filtered (active st) all) (active st) (memo st))\<rparr>"

definition mount :: "project list \<Rightarrow> projects_state" where
  "mount all = render all \<lparr>active = ''All'', memo = None\<rparr>"

definition setActive :: "project list \<Rightarrow> projects_state \<Rightarrow> string \<Rightarrow> projects_state" where
  "setActive all st c = render all (st\<lparr>active := c\<rparr>)"

text \<open>What \<^verbatim>\<open>filtered.map(...)\<close> puts on the page: the value in the memo cell.\<close>

definition displayed :: "projects_state \<Rightarrow> project list" where
  "displayed st = (case memo st of None \<Rightarrow> [] | Some (dep, v) \<Rightarrow> v)"

section \<open>The contact form\<close>

text \<open>
  The form has three controls, \<^verbatim>\<open>name\<close>, \<^verbatim>\<open>email\<close> and \<^verbatim>\<open>message\<close>, without
  default values, so \<^verbatim>\<open>reset()\<close> empties them.
\<close>

record form =
  name_value :: string
  email_value :: string
  message_value :: string

definition reset :: "form \<Rightarrow> form" where
  "reset f = \<lparr>name_value = [], email_value = [], message_value = []\<rparr>"

text \<open>
  The state of the \<^verbatim>\<open>Contact\<close> component: the status shown under the form, whose type
  is \<^verbatim>\<open>"idle"\<close>, \<^verbatim>\<open>"ok"\<close> or \<^verbatim>\<open>"error"\<close> (\<open>Failed\<close> below), and the values in the
  form's controls.
\<close>

datatype status_type = Idle | Ok | Failed

record contact_status =
  type :: status_type
  message :: "string option"

record contact =
  status_of :: contact_status
  form_of :: form

definition setStatus :: "contact_status \<Rightarrow> contact \<Rightarrow> contact" where
  "setStatus s c = c\<lparr>status_of := s\<rparr>"

record fetch_request =
  url :: string
  http_method :: string
  accept :: string
  payload :: jsval

text \<open>
  \<^verbatim>\<open>JSON.stringify({ name: data.get("name"), email: ..., message: ... })\<close>, given as the
  value the text stands for.
\<close>

definition stringify :: "form \<Rightarrow> jsval" where
  "stringify f =
     Obj [(''name'', Str (name_value f)), (''email'', Str (email_value f)),
          (''message'', Str (message_value f))]"

definition contact_request :: "form \<Rightarrow> fetch_request" where
  "contact_request f =
     \<lparr>url = ''/api/contact'', http_method = ''POST'', accept = ''application/json'',
      payload = stringify f\<rparr>"

text \<open>
  The body of the \<^verbatim>\<open>try\<close> block. \<^verbatim>\<open>fetch\<close> is the network: it rejects or resolves to a
  response. The event \<^verbatim>\<open>e\<close> belongs to the dispatcher, and the block reads
  \<^verbatim>\<open>e.currentTarget\<close> after the \<^verbatim>\<open>await\<close>; \<open>target\<close> is what that read yields, the
  form (\<open>True\<close>) or \<^verbatim>\<open>null\<close> (\<open>False\<close>), and calling \<^verbatim>\<open>reset\<close> on \<^verbatim>\<open>null\<close> throws a
  TypeError. The result is the exception thrown, if any, and the state reached.
\<close>

definition try_block ::
  "(fetch_request \<Rightarrow> exn + response) \<Rightarrow> bool \<Rightarrow> form \<Rightarrow> contact \<Rightarrow> exn option \<times> contact" where
  "try_block fetch target data c =
     (case fetch (contact_request data) of
        Inl err \<Rightarrow> (Some err, c)
      | Inr res \<Rightarrow>
          if \<not> res_ok res then (Some (Error ''Request failed''), c)
          else
            let c1 = setStatus \<lparr>type = Ok, message = Some ''Thanks! I'll get back to you soon.''\<rparr> c
            in if target then (None, c1\<lparr>form_of := reset (form_of c1)\<rparr>)
               else (Some TypeError, c1))"

text \<open>
  \<^verbatim>\<open>handleSubmit\<close>: the form data is read from \<^verbatim>\<open>e.currentTarget\<close> during the dispatch,
  when it is the form; then the \<^verbatim>\<open>try\<close> block runs, and the \<^verbatim>\<open>catch\<close> sets the failure
  status whatever was thrown.
\<close>

definition handleSubmit ::
  "(fetch_request \<Rightarrow> exn + response) \<Rightarrow> bool \<Rightarrow> contact \<Rightarrow> contact" where
  "handleSubmit fetch target c =
     (let data = form_of c
      in case try_block fetch target data c of
           (None, c') \<Rightarrow> c'
         | (Some err, c') \<Rightarrow>
             setStatus \<lparr>type = Failed,
                        message = Some ''Something went wrong. Email me directly instead.''\<rparr> c')"

section \<open>Acceptance\<close>

lemma POST_Obj:
  "req_json req = Inr (Obj kvs) \<Longrightarrow>
   POST req =
     (if missing_fields (field kvs ''name'') (field kvs ''email'') (field kvs ''message'')
      then Inr missing_response else Inr ok_response)"
  by (simp add: POST_def json_or_empty_def)

lemma missing_neq_ok: "missing_response \<noteq> ok_response"
  by (simp add: missing_response_def ok_response_def NextResponse_json_def)

text \<open>
  C1. When the parsed body is a record whose \<^verbatim>\<open>name\<close>, \<^verbatim>\<open>email\<close> and \<^verbatim>\<open>message\<close>
  are non-empty strings, the handler returns status 200, which is a success status, with
  body \<^verbatim>\<open>{ok: true}\<close>. For every parsed record, the handler answers with that response
  if and only if all three fields are truthy.
\<close>

theorem POST_accepts_nonempty_strings:
  "(req_json req = Inr (Obj kvs) \<and>
    field kvs ''name'' = Str n \<and> n \<noteq> [] \<and>
    field kvs ''email'' = Str e \<and> e \<noteq> [] \<and>
    field kvs ''message'' = Str m \<and> m \<noteq> []
    \<longrightarrow> POST req = Inr ok_response \<and> status ok_response = 200 \<and> res_ok ok_response \<and>
        body ok_response = Obj [(''ok'', Bool True)])
   \<and>
   (req_json req = Inr (Obj kvs) \<longrightarrow>
      (POST req = Inr ok_response) =
      (truthy (field kvs ''name'') \<and> truthy (field kvs ''email'') \<and>
       truthy (field kvs ''message'')))"
proof (intro conjI impI)
  assume a: "req_json req = Inr (Obj kvs) \<and>
    field kvs ''name'' = Str n \<and> n \<noteq> [] \<and>
    field kvs ''email'' = Str e \<and> e \<noteq> [] \<and>
    field kvs ''message'' = Str m \<and> m \<noteq> []"
  then show "POST req = Inr ok_response"
    by (simp add: POST_Obj missing_fields_def)
next
  show "status ok_response = 200" "res_ok ok_response"
       "body ok_response = Obj [(''ok'', Bool True)]"
    by (simp_all add: ok_response_def NextResponse_json_def res_ok_def)
next
  assume "req_json req = Inr (Obj kvs)"
  then show "(POST req = Inr ok_response) =
      (truthy (field kvs ''name'') \<and> truthy (field kvs ''email'') \<and>
       truthy (field kvs ''message''))"
    using missing_neq_ok by (auto simp: POST_Obj missing_fields_def)
qed

theorem POST_accepts_nonempty_strings_witness:
  "POST \<lparr>headers = [], req_json = Inr (Obj [(''name'', Str ''Ada''),
       (''email'', Str ''ada@example.com''), (''message'', Str ''Hello'')])\<rparr>
     = Inr \<lparr>status = 200, body = Obj [(''ok'', Bool True)]\<rparr>
   \<and> POST \<lparr>headers = [], req_json = Inr (Obj [(''name'', Str ''Ada''),
       (''message'', Str ''Hello'')])\<rparr> \<noteq> Inr ok_response"
  using POST_accepts_nonempty_strings
    [of "\<lparr>headers = [], req_json = Inr (Obj [(''name'', Str ''Ada''),
          (''email'', Str ''ada@example.com''), (''message'', Str ''Hello'')])\<rparr>"
        "[(''name'', Str ''Ada''), (''email'', Str ''ada@example.com''),
          (''message'', Str ''Hello'')]"
        "''Ada''" "''ada@example.com''" "''Hello''"]
    POST_accepts_nonempty_strings
    [of "\<lparr>headers = [], req_json = Inr (Obj [(''name'', Str ''Ada''),
          (''message'', Str ''Hello'')])\<rparr>"
        "[(''name'', Str ''Ada''), (''message'', Str ''Hello'')]"]
  by (simp add: field_def ok_response_def NextResponse_json_def)

section \<open>Rejection\<close>

lemma POST_js_Obj:
  "req_json req = Inr (Obj kvs) \<Longrightarrow>
   POST_js req =
     (if missing_fields (field kvs ''name'') (field kvs ''email'') (field kvs ''message'')
      then Inr missing_response_js else Inr ok_response)"
  by (simp add: POST_js_def)

lemma blank_not_truthy: "v \<in> {Undefined, Null, Str []} \<Longrightarrow> \<not> truthy v"
  by auto

lemma missing_fields_blank:
  assumes "\<exists>k\<in>{''name'', ''email'', ''message''}. field kvs k \<in> {Undefined, Null, Str []}"
  shows "missing_fields (field kvs ''name'') (field kvs ''email'') (field kvs ''message'')"
proof -
  from assms obtain k where k: "k \<in> {''name'', ''email'', ''message''}"
    and b: "field kvs k \<in> {Undefined, Null, Str []}" by blast
  from b have "\<not> truthy (field kvs k)" by (rule blank_not_truthy)
  with k show ?thesis unfolding missing_fields_def by blast
qed

text \<open>
  C2, as amended. When the parsed body is a record in which at least one of \<^verbatim>\<open>name\<close>,
  \<^verbatim>\<open>email\<close>, \<^verbatim>\<open>message\<close> is absent (and so reads as \<^verbatim>\<open>undefined\<close>), \<^verbatim>\<open>null\<close> or the
  empty string, both handlers answer with status 400. The body is
  \<^verbatim>\<open>{ok: false, error: "Missing fields"}\<close> in the typed handler and \<^verbatim>\<open>{ok: false}\<close> in the
  untyped one.
\<close>

theorem POST_rejects_missing_fields:
  assumes "req_json req = Inr (Obj kvs)"
    and "\<exists>k\<in>{''name'', ''email'', ''message''}. field kvs k \<in> {Undefined, Null, Str []}"
  shows "POST req =
           Inr \<lparr>status = 400,
                body = Obj [(''ok'', Bool False), (''error'', Str ''Missing fields'')]\<rparr>
         \<and> POST_js req = Inr \<lparr>status = 400, body = Obj [(''ok'', Bool False)]\<rparr>"
proof -
  have m: "missing_fields (field kvs ''name'') (field kvs ''email'') (field kvs ''message'')"
    using assms(2) by (rule missing_fields_blank)
  have "POST req = Inr missing_response"
    using assms(1) m by (simp add: POST_Obj)
  moreover have "POST_js req = Inr missing_response_js"
    using assms(1) m by (simp add: POST_js_Obj)
  ultimately show ?thesis
    by (simp add: missing_response_def missing_response_js_def NextResponse_json_def)
qed

theorem POST_rejects_missing_fields_witness:
  "POST \<lparr>headers = [], req_json = Inr (Obj [(''name'', Str ''Ada''), (''email'', Str []),
       (''message'', Str ''Hello'')])\<rparr>
     = Inr \<lparr>status = 400,
            body = Obj [(''ok'', Bool False), (''error'', Str ''Missing fields'')]\<rparr>
   \<and> POST_js \<lparr>headers = [], req_json = Inr (Obj [(''name'', Str ''Ada''), (''email'', Str []),
       (''message'', Str ''Hello'')])\<rparr>
     = Inr \<lparr>status = 400, body = Obj [(''ok'', Bool False)]\<rparr>"
  using POST_rejects_missing_fields
    [of "\<lparr>headers = [], req_json = Inr (Obj [(''name'', Str ''Ada''), (''email'', Str []),
          (''message'', Str ''Hello'')])\<rparr>"
        "[(''name'', Str ''Ada''), (''email'', Str []), (''message'', Str ''Hello'')]"]
  by (simp add: field_def)

text \<open>
  The claim as it stands asks for the body with the \<^verbatim>\<open>error\<close> property from every
  handler. The untyped handler, given a record with an empty \<^verbatim>\<open>email\<close>, answers 400 with
  another body.
\<close>

theorem POST_js_missing_body_counterexample:
  "field [(''name'', Str ''Ada''), (''email'', Str []), (''message'', Str ''Hello'')] ''email''
     = Str []
   \<and> POST_js \<lparr>headers = [], req_json = Inr (Obj [(''name'', Str ''Ada''), (''email'', Str []),
       (''message'', Str ''Hello'')])\<rparr>
     \<noteq> Inr \<lparr>status = 400,
            body = Obj [(''ok'', Bool False), (''error'', Str ''Missing fields'')]\<rparr>"
  by (simp add: POST_js_def field_def missing_fields_def missing_response_js_def
      NextResponse_json_def)

section \<open>Bodies that do not parse\<close>

text \<open>
  When \<^verbatim>\<open>req.json()\<close> rejects, the typed handler goes on with the empty record and
  answers as it does for the body \<^verbatim>\<open>{}\<close>.
\<close>

lemma POST_catches_rejection:
  "req_json req = Inl e \<Longrightarrow>
   POST req = Inr missing_response \<and> POST req = POST (req\<lparr>req_json := Inr (Obj [])\<rparr>)"
  by (simp add: POST_def json_or_empty_def field_def missing_fields_def)

lemma POST_throws_only_on_null:
  "POST req = Inl e \<Longrightarrow> e = TypeError \<and> req_json req \<in> {Inr Null, Inr Undefined}"
  by (cases "req_json req"; cases "json_or_empty req")
     (auto simp: POST_def json_or_empty_def split: if_splits)

text \<open>
  C3. The claim does not hold of the code in two places. The untyped handler has no
  \<^verbatim>\<open>catch\<close>: a body that is not JSON makes \<^verbatim>\<open>req.json()\<close> reject with a SyntaxError, and
  the handler rejects with it. The typed handler catches that, but the body \<^verbatim>\<open>null\<close> is
  valid JSON that is not a record: \<^verbatim>\<open>req.json()\<close> resolves to \<^verbatim>\<open>null\<close>, the \<^verbatim>\<open>catch\<close>
  does not run, and destructuring \<^verbatim>\<open>null\<close> throws a TypeError out of the handler.
\<close>

theorem POST_exception_escapes:
  "POST_js \<lparr>headers = [], req_json = Inl SyntaxError\<rparr> = Inl SyntaxError
   \<and> POST \<lparr>headers = [], req_json = Inr Null\<rparr> = Inl TypeError"
  by (simp add: POST_js_def POST_def json_or_empty_def)

section \<open>Effects of the handler\<close>

lemma POST_truthy:
  assumes "req_json req = Inr (Obj kvs)"
    and "truthy (field kvs ''name'')" "truthy (field kvs ''email'')"
    and "truthy (field kvs ''message'')"
  shows "POST req = Inr ok_response"
  using assms by (simp add: POST_Obj missing_fields_def)

lemma ok_response_eq: "ok_response = \<lparr>status = 200, body = Obj [(''ok'', Bool True)]\<rparr>"
  by (simp add: ok_response_def NextResponse_json_def)

text \<open>
  The interpreter is not the identity on the world. The outbox and the database never
  shrink, so a program that sends mail or logs a row leaves a world different from the
  one it started in, whatever it does afterwards.
\<close>

lemma run_grows:
  "length (outbox w) \<le> length (outbox (snd (run p req w)))
   \<and> length (database w) \<le> length (database (snd (run p req w)))"
proof (induction p arbitrary: w)
  case (Send_email m p)
  from Send_email [of "w\<lparr>outbox := outbox w @ [m]\<rparr>"] show ?case by simp
next
  case (Log_to_db m p)
  from Log_to_db [of "w\<lparr>database := database w @ [m]\<rparr>"] show ?case by simp
qed simp_all

lemma run_Send_email_changes: "snd (run (Send_email m p) req w) \<noteq> w"
proof
  assume "snd (run (Send_email m p) req w) = w"
  then have "outbox (snd (run p req (w\<lparr>outbox := outbox w @ [m]\<rparr>))) = outbox w"
    by simp
  moreover have "length (outbox (w\<lparr>outbox := outbox w @ [m]\<rparr>))
      \<le> length (outbox (snd (run p req (w\<lparr>outbox := outbox w @ [m]\<rparr>))))"
    using run_grows by blast
  ultimately show False by simp
qed

lemma run_Log_to_db_changes: "snd (run (Log_to_db m p) req w) \<noteq> w"
proof
  assume "snd (run (Log_to_db m p) req w) = w"
  then have "database (snd (run p req (w\<lparr>database := database w @ [m]\<rparr>))) = database w"
    by simp
  moreover have "length (database (w\<lparr>database := database w @ [m]\<rparr>))
      \<le> length (database (snd (run p req (w\<lparr>database := database w @ [m]\<rparr>))))"
    using run_grows by blast
  ultimately show False by simp
qed

text \<open>
  Nor is the result of a program a function of the parsed body in general: a program that
  reads the headers, the clock or the database can answer differently on the same body.
\<close>

lemma run_reads_depend:
  "fst (run (Req_headers (\<lambda>h. Return (h = []))) \<lparr>headers = [], req_json = Inr Null\<rparr> w)
     \<noteq> fst (run (Req_headers (\<lambda>h. Return (h = [])))
            \<lparr>headers = [(''Accept'', ''text/plain'')], req_json = Inr Null\<rparr> w)"
  "fst (run (Date_now (\<lambda>t. Return (t = 0))) req \<lparr>outbox = [], database = [], clock = 0\<rparr>)
     \<noteq> fst (run (Date_now (\<lambda>t. Return (t = 0))) req
            \<lparr>outbox = [], database = [], clock = 1\<rparr>)"
  "fst (run (Read_db (\<lambda>rows. Return (rows = []))) req
            \<lparr>outbox = [], database = [], clock = 0\<rparr>)
     \<noteq> fst (run (Read_db (\<lambda>rows. Return (rows = []))) req
            \<lparr>outbox = [], database = [Null], clock = 0\<rparr>)"
  by simp_all

text \<open>
  The program of the typed handler returns what the function \<^const>\<open>POST\<close> computes from
  the request, and leaves the world as it found it.
\<close>

lemma run_POST_prog: "run POST_prog req w = (POST req, w)"
  by (simp add: POST_prog_def POST_def json_or_empty_def split: sum.splits prod.splits)

text \<open>
  C4. For a valid submission (a parsed record with all three fields truthy), running the
  handler returns status 200, a success status, with body exactly \<^verbatim>\<open>{ok: true}\<close>, and
  leaves the world as it was: nothing is added to the outbox, nothing to the database.
\<close>

theorem POST_success_without_effect:
  assumes "req_json req = Inr (Obj kvs)"
    and "truthy (field kvs ''name'')" "truthy (field kvs ''email'')"
    and "truthy (field kvs ''message'')"
  shows "run POST_prog req w = (Inr \<lparr>status = 200, body = Obj [(''ok'', Bool True)]\<rparr>, w)
         \<and> res_ok \<lparr>status = 200, body = Obj [(''ok'', Bool True)]\<rparr>"
  using POST_truthy [OF assms] by (simp add: run_POST_prog ok_response_eq res_ok_def)

theorem POST_success_without_effect_witness:
  "run POST_prog \<lparr>headers = [], req_json = Inr (Obj [(''name'', Str ''Ada''),
          (''email'', Str ''ada@example.com''), (''message'', Str ''Hello'')])\<rparr>
     \<lparr>outbox = [], database = [Str ''row''], clock = 5\<rparr>
   = (Inr \<lparr>status = 200, body = Obj [(''ok'', Bool True)]\<rparr>,
      \<lparr>outbox = [], database = [Str ''row''], clock = 5\<rparr>)"
  using POST_success_without_effect
    [of "\<lparr>headers = [], req_json = Inr (Obj [(''name'', Str ''Ada''),
          (''email'', Str ''ada@example.com''), (''message'', Str ''Hello'')])\<rparr>"
        "[(''name'', Str ''Ada''), (''email'', Str ''ada@example.com''),
          (''message'', Str ''Hello'')]"
        "\<lparr>outbox = [], database = [Str ''row''], clock = 5\<rparr>"]
  by (simp add: field_def)

text \<open>
  C5. What the handler returns, and with it the validation decision, is determined by the
  parsed body alone: two runs on requests with equal parsed bodies return the same,
  whatever the headers of the requests and whatever the outbox, the database and the
  clock of the worlds they run in, and each run leaves its world as it was.
\<close>

theorem POST_deterministic:
  assumes "req_json r1 = req_json r2"
  shows "fst (run POST_prog r1 w1) = fst (run POST_prog r2 w2)
         \<and> snd (run POST_prog r1 w1) = w1 \<and> snd (run POST_prog r2 w2) = w2"
  using assms by (simp add: run_POST_prog POST_def json_or_empty_def)

theorem POST_deterministic_witness:
  "fst (run POST_prog \<lparr>headers = [], req_json = Inr (Obj [(''name'', Str ''Ada'')])\<rparr>
          \<lparr>outbox = [], database = [], clock = 0\<rparr>)
   = fst (run POST_prog \<lparr>headers = [(''Accept'', ''application/json'')],
                   req_json = Inr (Obj [(''name'', Str ''Ada'')])\<rparr>
          \<lparr>outbox = [Str ''sent''], database = [Null], clock = 7\<rparr>)"
  using POST_deterministic
    [of "\<lparr>headers = [], req_json = Inr (Obj [(''name'', Str ''Ada'')])\<rparr>"
        "\<lparr>headers = [(''Accept'', ''application/json'')],
          req_json = Inr (Obj [(''name'', Str ''Ada'')])\<rparr>"
        "\<lparr>outbox = [], database = [], clock = 0\<rparr>"
        "\<lparr>outbox = [Str ''sent''], database = [Null], clock = 7\<rparr>"]
  by simp

text \<open>
  C6. A valid submission sent twice is answered twice with the success response: the
  second run, started in the world the first one left, returns what the first returned
  and leaves the world as it was at the start. The answer is also the same in the world
  left by a run of any other program \<open>p0\<close> on any request, whatever that run sent, logged
  or returned.
\<close>

theorem POST_twice:
  assumes "req_json req = Inr (Obj kvs)"
    and "truthy (field kvs ''name'')" "truthy (field kvs ''email'')"
    and "truthy (field kvs ''message'')"
  shows "run POST_prog req w = (Inr ok_response, w)
         \<and> run POST_prog req (snd (run POST_prog req w)) = (Inr ok_response, w)
         \<and> fst (run POST_prog req (snd (run p0 req0 w))) = Inr ok_response"
  using POST_truthy [OF assms] by (simp add: run_POST_prog)

theorem POST_twice_witness:
  "run POST_prog \<lparr>headers = [], req_json = Inr (Obj [(''name'', Str ''Ada''),
          (''email'', Str ''ada@example.com''), (''message'', Str ''Hello'')])\<rparr>
     (snd (run POST_prog \<lparr>headers = [], req_json = Inr (Obj [(''name'', Str ''Ada''),
          (''email'', Str ''ada@example.com''), (''message'', Str ''Hello'')])\<rparr>
        \<lparr>outbox = [], database = [], clock = 0\<rparr>))
   = (Inr ok_response, \<lparr>outbox = [], database = [], clock = 0\<rparr>)
   \<and> fst (run POST_prog \<lparr>headers = [], req_json = Inr (Obj [(''name'', Str ''Ada''),
          (''email'', Str ''ada@example.com''), (''message'', Str ''Hello'')])\<rparr>
       (snd (run (Log_to_db (Str ''Ada'') (Return ())) \<lparr>headers = [], req_json = Inr (Obj [(''name'', Str ''Ada''),
          (''email'', Str ''ada@example.com''), (''message'', Str ''Hello'')])\<rparr>
          \<lparr>outbox = [], database = [], clock = 0\<rparr>)))
     = Inr ok_response"
  using POST_twice
    [of "\<lparr>headers = [], req_json = Inr (Obj [(''name'', Str ''Ada''),
          (''email'', Str ''ada@example.com''), (''message'', Str ''Hello'')])\<rparr>"
        "[(''name'', Str ''Ada''), (''email'', Str ''ada@example.com''),
          (''message'', Str ''Hello'')]"
        "\<lparr>outbox = [], database = [], clock = 0\<rparr>"
        "Log_to_db (Str ''Ada'') (Return ())"
        "\<lparr>headers = [], req_json = Inr (Obj [(''name'', Str ''Ada''),
          (''email'', Str ''ada@example.com''), (''message'', Str ''Hello'')])\<rparr>"]
  by (simp add: field_def)

section \<open>Truthiness, not a type check\<close>

lemma POST_missing_status:
  assumes "req_json req = Inr (Obj kvs)"
    and "missing_fields (field kvs ''name'') (field kvs ''email'') (field kvs ''message'')"
  shows "POST req = Inr missing_response"
  using assms by (simp add: POST_Obj)

text \<open>
  C8. The presence check is \<^const>\<open>truthy\<close>, whatever the type of the value. A parsed
  record whose three fields are truthy is answered with status 200 and body
  \<^verbatim>\<open>{ok: true}\<close>, also when they are numbers, booleans, arrays or objects. A record with
  a falsy value that is not a string (\<^verbatim>\<open>0\<close>, \<^verbatim>\<open>false\<close>, \<^verbatim>\<open>null\<close>) in one of the three
  fields is answered with status 400.
\<close>

theorem POST_checks_truthiness:
  assumes "req_json req = Inr (Obj kvs)"
  shows "(truthy (field kvs ''name'') \<and> truthy (field kvs ''email'') \<and>
          truthy (field kvs ''message'')
          \<longrightarrow> POST req = Inr \<lparr>status = 200, body = Obj [(''ok'', Bool True)]\<rparr>)
       \<and> ((\<exists>k\<in>{''name'', ''email'', ''message''}.
              \<not> truthy (field kvs k) \<and> (\<forall>s. field kvs k \<noteq> Str s))
          \<longrightarrow> (\<exists>res. POST req = Inr res \<and> status res = 400))"
proof (intro conjI impI)
  assume "truthy (field kvs ''name'') \<and> truthy (field kvs ''email'') \<and>
          truthy (field kvs ''message'')"
  then show "POST req = Inr \<lparr>status = 200, body = Obj [(''ok'', Bool True)]\<rparr>"
    using POST_truthy [OF assms] by (simp add: ok_response_eq)
next
  assume "\<exists>k\<in>{''name'', ''email'', ''message''}.
              \<not> truthy (field kvs k) \<and> (\<forall>s. field kvs k \<noteq> Str s)"
  then have "missing_fields (field kvs ''name'') (field kvs ''email'') (field kvs ''message'')"
    unfolding missing_fields_def by blast
  then have "POST req = Inr missing_response"
    using assms by (rule POST_missing_status [rotated])
  then show "\<exists>res. POST req = Inr res \<and> status res = 400"
    by (simp add: missing_response_def NextResponse_json_def)
qed

theorem POST_checks_truthiness_witness:
  "POST \<lparr>headers = [], req_json = Inr (Obj [(''name'', Num (Finite 7)),
       (''email'', Bool True), (''message'', Arr [])])\<rparr>
     = Inr \<lparr>status = 200, body = Obj [(''ok'', Bool True)]\<rparr>
   \<and> (\<exists>res. POST \<lparr>headers = [], req_json = Inr (Obj [(''name'', Num (Finite 0)),
       (''email'', Str ''ada@example.com''), (''message'', Str ''Hello'')])\<rparr> = Inr res
       \<and> status res = 400)
   \<and> (\<exists>res. POST \<lparr>headers = [], req_json = Inr (Obj [(''name'', Str ''Ada''),
       (''email'', Str ''ada@example.com''), (''message'', Bool False)])\<rparr> = Inr res
       \<and> status res = 400)"
  using POST_checks_truthiness
    [of "\<lparr>headers = [], req_json = Inr (Obj [(''name'', Num (Finite 7)),
          (''email'', Bool True), (''message'', Arr [])])\<rparr>"
        "[(''name'', Num (Finite 7)), (''email'', Bool True), (''message'', Arr [])]"]
    POST_checks_truthiness
    [of "\<lparr>headers = [], req_json = Inr (Obj [(''name'', Num (Finite 0)),
          (''email'', Str ''ada@example.com''), (''message'', Str ''Hello'')])\<rparr>"
        "[(''name'', Num (Finite 0)), (''email'', Str ''ada@example.com''),
          (''message'', Str ''Hello'')]"]
    POST_checks_truthiness
    [of "\<lparr>headers = [], req_json = Inr (Obj [(''name'', Str ''Ada''),
          (''email'', Str ''ada@example.com''), (''message'', Bool False)])\<rparr>"
        "[(''name'', Str ''Ada''), (''email'', Str ''ada@example.com''),
          (''message'', Bool False)]"]
  by (simp add: field_def)

section \<open>Other properties of the body\<close>

text \<open>
  C9. Two requests whose parsed records agree on \<^verbatim>\<open>name\<close>, \<^verbatim>\<open>email\<close> and
  \<^verbatim>\<open>message\<close> get the same response from the handler, whatever else the records and
  the requests hold.
\<close>

theorem POST_ignores_other_properties:
  assumes "req_json r1 = Inr (Obj kvs1)" and "req_json r2 = Inr (Obj kvs2)"
    and "\<forall>k\<in>{''name'', ''email'', ''message''}. field kvs1 k = field kvs2 k"
  shows "POST r1 = POST r2"
  using assms by (simp add: POST_Obj)

theorem POST_ignores_other_properties_witness:
  "POST \<lparr>headers = [], req_json = Inr (Obj [(''name'', Str ''Ada''),
       (''email'', Str ''ada@example.com''), (''message'', Str ''Hello'')])\<rparr>
   = POST \<lparr>headers = [(''X-Trace'', ''1'')], req_json = Inr (Obj [(''admin'', Bool True),
       (''name'', Str ''Ada''), (''email'', Str ''ada@example.com''),
       (''message'', Str ''Hello''), (''subject'', Str ''Hi'')])\<rparr>"
  using POST_ignores_other_properties
    [of "\<lparr>headers = [], req_json = Inr (Obj [(''name'', Str ''Ada''),
          (''email'', Str ''ada@example.com''), (''message'', Str ''Hello'')])\<rparr>"
        "[(''name'', Str ''Ada''), (''email'', Str ''ada@example.com''),
          (''message'', Str ''Hello'')]"
        "\<lparr>headers = [(''X-Trace'', ''1'')], req_json = Inr (Obj [(''admin'', Bool True),
          (''name'', Str ''Ada''), (''email'', Str ''ada@example.com''),
          (''message'', Str ''Hello''), (''subject'', Str ''Hi'')])\<rparr>"
        "[(''admin'', Bool True), (''name'', Str ''Ada''), (''email'', Str ''ada@example.com''),
          (''message'', Str ''Hello''), (''subject'', Str ''Hi'')]"]
  by (simp add: field_def)

section \<open>The category filter\<close>

text \<open>
  The memo cell is either empty, before the first render, or holds the filter result for
  the category it was computed for. A render then leaves in it the result for the
  category that is active now.
\<close>

lemma render_memo:
  assumes "memo st = None \<or> (\<exists>a. memo st = Some (a, filtered a all))"
  shows "memo (render all st) = Some (active st, filtered (active st) all)"
  using assms by (auto simp: render_def)

lemma render_active: "active (render all st) = active st"
  by (simp add: render_def)

lemma run_invariant:
  "memo (foldl (setActive all) (mount all) cs) =
     Some (active (foldl (setActive all) (mount all) cs),
           filtered (active (foldl (setActive all) (mount all) cs)) all)
   \<and> active (foldl (setActive all) (mount all) cs) = last (''All'' # cs)"
proof (induction cs rule: rev_induct)
  case Nil
  show ?case by (simp add: mount_def render_memo render_active)
next
  case (snoc c cs)
  define st where "st = foldl (setActive all) (mount all) cs"
  have step: "foldl (setActive all) (mount all) (cs @ [c]) = render all (st\<lparr>active := c\<rparr>)"
    by (simp add: st_def setActive_def [of all _ c])
  have "memo st = Some (active st, filtered (active st) all)"
    using snoc by (simp add: st_def)
  then have "memo (render all (st\<lparr>active := c\<rparr>)) = Some (c, filtered c all)"
    using render_memo [of "st\<lparr>active := c\<rparr>" all] by auto
  then show ?case
    unfolding step by (simp add: render_active)
qed

lemma displayed_run:
  "displayed (foldl (setActive all) (mount all) cs) = filtered (last (''All'' # cs)) all"
  using run_invariant [of all cs] by (simp add: displayed_def)

text \<open>
  C10. After mounting the component and any sequence \<open>cs\<close> of clicks on category buttons,
  the active category is the last one clicked (\<^verbatim>\<open>"All"\<close> at the start). When it is
  \<^verbatim>\<open>"All"\<close> the displayed list is the full list. Otherwise the displayed list is the
  projects whose \<^verbatim>\<open>cat\<close> is the active category, in the order of the full list: it is a
  subsequence of the full list with exactly those elements. The full list is a value of
  the model and \<^verbatim>\<open>Array.prototype.filter\<close> builds a new array, so it is the same list
  before and after.
\<close>

theorem Projects_filter_is_selection:
  "(last (''All'' # cs) = ''All'' \<longrightarrow>
      displayed (foldl (setActive all) (mount all) cs) = all)
   \<and> (last (''All'' # cs) \<noteq> ''All'' \<longrightarrow>
      displayed (foldl (setActive all) (mount all) cs)
        = filter (\<lambda>p. cat p = last (''All'' # cs)) all
      \<and> subseq (displayed (foldl (setActive all) (mount all) cs)) all
      \<and> set (displayed (foldl (setActive all) (mount all) cs))
        = {p \<in> set all. cat p = last (''All'' # cs)})"
  by (auto simp: displayed_run filtered_def)

theorem Projects_filter_is_selection_witness:
  "displayed (foldl (setActive
       [\<lparr>title = ''Roomer'', cat = ''Web'', thumb = [], desc = [], stack = [],
          github = None, demo = None\<rparr>,
        \<lparr>title = ''TradeOps'', cat = ''Data'', thumb = [], desc = [], stack = [],
          github = None, demo = None\<rparr>,
        \<lparr>title = ''GridPro'', cat = ''Web'', thumb = [], desc = [], stack = [],
          github = None, demo = None\<rparr>])
     (mount
       [\<lparr>title = ''Roomer'', cat = ''Web'', thumb = [], desc = [], stack = [],
          github = None, demo = None\<rparr>,
        \<lparr>title = ''TradeOps'', cat = ''Data'', thumb = [], desc = [], stack = [],
          github = None, demo = None\<rparr>,
        \<lparr>title = ''GridPro'', cat = ''Web'', thumb = [], desc = [], stack = [],
          github = None, demo = None\<rparr>])
     [''Data'', ''All'', ''Web''])
   = [\<lparr>title = ''Roomer'', cat = ''Web'', thumb = [], desc = [], stack = [],
        github = None, demo = None\<rparr>,
      \<lparr>title = ''GridPro'', cat = ''Web'', thumb = [], desc = [], stack = [],
        github = None, demo = None\<rparr>]"
  using Projects_filter_is_selection
    [of "[''Data'', ''All'', ''Web'']"
        "[\<lparr>title = ''Roomer'', cat = ''Web'', thumb = [], desc = [], stack = [],
            github = None, demo = None\<rparr>,
          \<lparr>title = ''TradeOps'', cat = ''Data'', thumb = [], desc = [], stack = [],
            github = None, demo = None\<rparr>,
          \<lparr>title = ''GridPro'', cat = ''Web'', thumb = [], desc = [], stack = [],
            github = None, demo = None\<rparr>]"]
  by simp

section \<open>The submit handler of the contact form\<close>

text \<open>
  The request carries the three form values and goes by POST to \<^verbatim>\<open>/api/contact\<close>.
  When \<^verbatim>\<open>fetch\<close> rejects, or resolves to a response that is not \<^verbatim>\<open>ok\<close>, the status shown
  is the failure message and the form keeps its values. When the response is \<^verbatim>\<open>ok\<close> and
  \<^verbatim>\<open>e.currentTarget\<close> is still the form, the status is the acknowledgement and the form is
  empty.
\<close>

lemma handleSubmit_rejected:
  "fetch (contact_request (form_of c)) = Inl err \<Longrightarrow>
   handleSubmit fetch target c =
     c\<lparr>status_of := \<lparr>type = Failed,
          message = Some ''Something went wrong. Email me directly instead.''\<rparr>\<rparr>"
  by (simp add: handleSubmit_def try_block_def setStatus_def)

lemma handleSubmit_not_ok:
  "fetch (contact_request (form_of c)) = Inr res \<Longrightarrow> \<not> res_ok res \<Longrightarrow>
   handleSubmit fetch target c =
     c\<lparr>status_of := \<lparr>type = Failed,
          message = Some ''Something went wrong. Email me directly instead.''\<rparr>\<rparr>"
  by (simp add: handleSubmit_def try_block_def setStatus_def)

lemma handleSubmit_ok_target:
  "fetch (contact_request (form_of c)) = Inr res \<Longrightarrow> res_ok res \<Longrightarrow>
   handleSubmit fetch True c =
     \<lparr>status_of = \<lparr>type = Ok, message = Some ''Thanks! I'll get back to you soon.''\<rparr>,
      form_of = \<lparr>name_value = [], email_value = [], message_value = []\<rparr>\<rparr>"
  by (simp add: handleSubmit_def try_block_def setStatus_def reset_def Let_def)

lemma handleSubmit_ok_null:
  "fetch (contact_request (form_of c)) = Inr res \<Longrightarrow> res_ok res \<Longrightarrow>
   handleSubmit fetch False c =
     c\<lparr>status_of := \<lparr>type = Failed,
          message = Some ''Something went wrong. Email me directly instead.''\<rparr>\<rparr>"
  by (simp add: handleSubmit_def try_block_def setStatus_def Let_def)

lemma contact_request_payload:
  "payload (contact_request f) =
     Obj [(''name'', Str (name_value f)), (''email'', Str (email_value f)),
          (''message'', Str (message_value f))]
   \<and> http_method (contact_request f) = ''POST'' \<and> url (contact_request f) = ''/api/contact''"
  by (simp add: contact_request_def stringify_def)

text \<open>
  C7. On a success response the handler sets the acknowledgement and then calls
  \<^verbatim>\<open>e.currentTarget.reset()\<close>. That read of \<^verbatim>\<open>currentTarget\<close> comes after the
  \<^verbatim>\<open>await\<close>, when the dispatch of the submit event is over: the DOM sets an event's
  \<^verbatim>\<open>currentTarget\<close> to \<^verbatim>\<open>null\<close> at the end of its dispatch, and React does the same
  with its synthetic events after calling the listener. So the call throws a TypeError
  inside the \<^verbatim>\<open>try\<close> block, the \<^verbatim>\<open>catch\<close> replaces the acknowledgement by the failure
  message, and the form is not cleared. Here the form holds a valid submission, the
  typed route handler answers it with status 200, and the handler ends in the failure
  status with the form as it was.
\<close>

theorem handleSubmit_success_ends_in_failure:
  "POST \<lparr>headers = [], req_json = Inr (payload (contact_request
       \<lparr>name_value = ''Ada'', email_value = ''ada@example.com'', message_value = ''Hello''\<rparr>))\<rparr>
     = Inr \<lparr>status = 200, body = Obj [(''ok'', Bool True)]\<rparr>
   \<and> handleSubmit (\<lambda>r. POST \<lparr>headers = [], req_json = Inr (payload r)\<rparr>) False
       \<lparr>status_of = \<lparr>type = Idle, message = None\<rparr>,
        form_of = \<lparr>name_value = ''Ada'', email_value = ''ada@example.com'',
                   message_value = ''Hello''\<rparr>\<rparr>
     = \<lparr>status_of = \<lparr>type = Failed,
          message = Some ''Something went wrong. Email me directly instead.''\<rparr>,
        form_of = \<lparr>name_value = ''Ada'', email_value = ''ada@example.com'',
                   message_value = ''Hello''\<rparr>\<rparr>"
  by (simp add: handleSubmit_def try_block_def setStatus_def contact_request_def stringify_def
      POST_def json_or_empty_def field_def missing_fields_def ok_response_def
      NextResponse_json_def res_ok_def Let_def)

end
